theory Spec2Isabelle
  imports Complex_Main "HOL-Library.Sublist"
begin

section \<open>JavaScript values\<close>

text \<open>
  The server (\<^verbatim>\<open>src/server.js\<close>) works on values produced by \<^verbatim>\<open>JSON.parse\<close>.
  A JavaScript string is modelled as a \<^typ>\<open>string\<close>, one \<^typ>\<open>char\<close> per code unit
  (code units above 255 are not represented).  A number produced by \<^verbatim>\<open>JSON.parse\<close>
  is a double that is never NaN; negative zero is identified with zero, which no
  operation used by the server distinguishes.  The value \<^verbatim>\<open>undefined\<close> is
  \<^term>\<open>None\<close> of type \<open>json option\<close>.  An object is the list of its own
  properties; a lookup takes the first binding of a key.
\<close>

datatype jsnum = Finite rat | PlusInfinity | MinusInfinity

datatype json =
    JNull
  | JBool bool
  | JNum jsnum
  | JStr string
  | JArr "json list"
  | JObj "(string \<times> json) list"

datatype js_error = TypeError

text \<open>
  Built-ins of the platform that the server calls and that are not part of the
  repository.  \<open>JSON_parse\<close> returns \<^term>\<open>None\<close> where \<^verbatim>\<open>JSON.parse\<close> throws;
  \<open>Buffer_toString\<close> is \<^verbatim>\<open>chunk.toString('utf8')\<close>.
\<close>

record builtins =
  JSON_parse :: "string \<Rightarrow> json option"
  JSON_stringify :: "json \<Rightarrow> string"
  Number_toString :: "jsnum \<Rightarrow> string"
  Buffer_toString :: "string \<Rightarrow> string"

text \<open>
  \<^verbatim>\<open>v?.key\<close> for the keys the server reads (\<^verbatim>\<open>images\<close>, \<^verbatim>\<open>role\<close>, \<^verbatim>\<open>content\<close>,
  \<^verbatim>\<open>data\<close>, \<^verbatim>\<open>mime\<close>, \<^verbatim>\<open>id\<close>, \<^verbatim>\<open>model\<close>, \<^verbatim>\<open>messages\<close>, \<^verbatim>\<open>error\<close>, \<^verbatim>\<open>message\<close>,
  \<^verbatim>\<open>choices\<close>): none of them is a property of a primitive, of an array or of a
  prototype, so only an object's own properties answer.
\<close>

fun opt_get :: "json option \<Rightarrow> string \<Rightarrow> json option" where
  "opt_get (Some (JObj kvs)) k = map_of kvs k"
| "opt_get _ k = None"

text \<open>\<^verbatim>\<open>v.key\<close> without optional chaining throws on \<^verbatim>\<open>null\<close> and \<^verbatim>\<open>undefined\<close>.\<close>

fun get :: "json option \<Rightarrow> string \<Rightarrow> js_error + json option" where
  "get None k = Inl TypeError"
| "get (Some JNull) k = Inl TypeError"
| "get (Some v) k = Inr (opt_get (Some v) k)"

text \<open>\<^verbatim>\<open>v?.[0]\<close>: the first element of an array, the first code unit of a string,
  the property \<^verbatim>\<open>"0"\<close> of an object.\<close>

fun opt_index0 :: "json option \<Rightarrow> json option" where
  "opt_index0 (Some (JArr [])) = None"
| "opt_index0 (Some (JArr (x # xs))) = Some x"
| "opt_index0 (Some (JStr [])) = None"
| "opt_index0 (Some (JStr (c # cs))) = Some (JStr [c])"
| "opt_index0 (Some (JObj kvs)) = map_of kvs ''0''"
| "opt_index0 _ = None"

fun truthy :: "json option \<Rightarrow> bool" where
  "truthy None = False"
| "truthy (Some JNull) = False"
| "truthy (Some (JBool b)) = b"
| "truthy (Some (JNum n)) = (n \<noteq> Finite 0)"
| "truthy (Some (JStr s)) = (s \<noteq> [])"
| "truthy (Some (JArr xs)) = True"
| "truthy (Some (JObj kvs)) = True"

text \<open>\<^verbatim>\<open>a || b\<close>\<close>

definition or_else :: "json option \<Rightarrow> json option \<Rightarrow> json option" where
  "or_else a b = (if truthy a then a else b)"

fun isArray :: "json option \<Rightarrow> bool" where
  "isArray (Some (JArr xs)) = True"
| "isArray _ = False"

fun join :: "string \<Rightarrow> string list \<Rightarrow> string" where
  "join sep [] = []"
| "join sep [s] = s"
| "join sep (s # t # ss) = s @ sep @ join sep (t # ss)"

text \<open>
  \<^verbatim>\<open>String(v)\<close> and the conversion inside a template literal.  An array is its
  elements joined by commas, \<^verbatim>\<open>null\<close> elements giving the empty string.  An
  object gives \<^verbatim>\<open>[object Object]\<close>, unless it has an own property \<^verbatim>\<open>toString\<close>:
  that property, coming from JSON, is not callable, nor does \<^verbatim>\<open>valueOf\<close> give a
  primitive, and the conversion throws a TypeError.
\<close>

fun js_String :: "builtins \<Rightarrow> json option \<Rightarrow> js_error + string"
  and js_elems :: "builtins \<Rightarrow> json list \<Rightarrow> js_error + string list" where
  "js_String B None = Inr ''undefined''"
| "js_String B (Some JNull) = Inr ''null''"
| "js_String B (Some (JBool b)) = Inr (if b then ''true'' else ''false'')"
| "js_String B (Some (JNum n)) = Inr (Number_toString B n)"
| "js_String B (Some (JStr s)) = Inr s"
| "js_String B (Some (JArr xs)) =
     (case js_elems B xs of Inl e \<Rightarrow> Inl e | Inr ss \<Rightarrow> Inr (join '','' ss))"
| "js_String B (Some (JObj kvs)) =
     (if ''toString'' \<in> set (map fst kvs) then Inl TypeError else Inr ''[object Object]'')"
| "js_elems B [] = Inr []"
| "js_elems B (x # xs) =
     (case (if x = JNull then Inr [] else js_String B (Some x)) of
        Inl e \<Rightarrow> Inl e
      | Inr s \<Rightarrow> (case js_elems B xs of Inl e \<Rightarrow> Inl e | Inr ss \<Rightarrow> Inr (s # ss)))"

section \<open>Message reshaping (doGroqChat, the map over messages)\<close>

datatype block = TextBlock string | ImageBlock string

datatype msg_content = Plain "json option" | Blocks "block list"

record groq_message =
  role :: "json option"
  content :: msg_content

text \<open>\<^verbatim>\<open>typeof img === 'string' ? img : String(img?.data || '')\<close>\<close>

definition img_data :: "builtins \<Rightarrow> json \<Rightarrow> js_error + string" where
  "img_data B img =
     (case img of
        JStr s \<Rightarrow> Inr s
      | _ \<Rightarrow> js_String B (or_else (opt_get (Some img) ''data'') (Some (JStr []))))"

fun typeof_object :: "json \<Rightarrow> bool" where
  "typeof_object JNull = True"
| "typeof_object (JArr xs) = True"
| "typeof_object (JObj kvs) = True"
| "typeof_object _ = False"

text \<open>\<^verbatim>\<open>typeof img === 'object' && img?.mime ? String(img.mime) : 'image/png'\<close>\<close>

definition img_mime :: "builtins \<Rightarrow> json \<Rightarrow> js_error + string" where
  "img_mime B img =
     (if typeof_object img \<and> truthy (opt_get (Some img) ''mime'')
      then js_String B (opt_get (Some img) ''mime'')
      else Inr ''image/png'')"

text \<open>The body of the \<^verbatim>\<open>for (const img of m.images)\<close> loop, \<open>acc\<close> being \<^verbatim>\<open>content\<close>.\<close>

fun push_images :: "builtins \<Rightarrow> block list \<Rightarrow> json list \<Rightarrow> js_error + block list" where
  "push_images B acc [] = Inr acc"
| "push_images B acc (img # imgs) =
     (case img_data B img of
        Inl e \<Rightarrow> Inl e
      | Inr d \<Rightarrow>
          (case img_mime B img of
             Inl e \<Rightarrow> Inl e
           | Inr mime \<Rightarrow>
               if d = [] then push_images B acc imgs
               else push_images B
                      (acc @ [ImageBlock (''data:'' @ mime @ '';base64,'' @ d)]) imgs))"

definition reshape :: "builtins \<Rightarrow> json \<Rightarrow> js_error + groq_message" where
  "reshape B m =
     (case opt_get (Some m) ''images'' of
        Some (JArr (i # is)) \<Rightarrow>
          (case (if truthy (opt_get (Some m) ''content'')
                 then (case js_String B (opt_get (Some m) ''content'') of
                         Inl e \<Rightarrow> Inl e | Inr t \<Rightarrow> Inr [TextBlock t])
                 else Inr []) of
             Inl e \<Rightarrow> Inl e
           | Inr c0 \<Rightarrow>
               (case push_images B c0 (i # is) of
                  Inl e \<Rightarrow> Inl e
                | Inr c \<Rightarrow>
                    if c = []
                    then Inr \<lparr>role = opt_get (Some m) ''role'',
                              content = Plain (or_else (opt_get (Some m) ''content'')
                                                 (Some (JStr [])))\<rparr>
                    else Inr \<lparr>role = opt_get (Some m) ''role'', content = Blocks c\<rparr>))
      | _ \<Rightarrow>
          (case get (Some m) ''role'' of
             Inl e \<Rightarrow> Inl e
           | Inr r \<Rightarrow>
               (case get (Some m) ''content'' of
                  Inl e \<Rightarrow> Inl e
                | Inr c \<Rightarrow> Inr \<lparr>role = r, content = Plain c\<rparr>)))"

fun map_result :: "('a \<Rightarrow> js_error + 'b) \<Rightarrow> 'a list \<Rightarrow> js_error + 'b list" where
  "map_result f [] = Inr []"
| "map_result f (x # xs) =
     (case f x of
        Inl e \<Rightarrow> Inl e
      | Inr y \<Rightarrow> (case map_result f xs of Inl e \<Rightarrow> Inl e | Inr ys \<Rightarrow> Inr (y # ys)))"

section \<open>Effects of a handler\<close>

text \<open>
  A handler is modelled by the list of effects it performs, in order.  Log lines
  are not recorded; where printing one can throw, the exception is.  An exception that leaves the handler is the effect
  \<open>Uncaught\<close>: nothing follows it.
\<close>

record chat_body =
  model :: "json option"
  messages :: "groq_message list"
  temperature :: rat
  max_tokens :: nat
  stream :: bool

datatype effect =
    SendJson nat json
  | SendFile nat string string
  | HttpsRequest string string "string option"
  | ReadFile string
  | DestroyRequest
  | OnDone string
  | Uncaught js_error

text \<open>\<open>SendJson status payload\<close> is \<^verbatim>\<open>sendJson(res, status, payload)\<close>;
  \<open>SendFile status contentType data\<close> is \<^verbatim>\<open>res.writeHead\<close> and \<^verbatim>\<open>res.end(data)\<close>
  of serveStatic; \<open>HttpsRequest method path bodyStr\<close> is the outbound call of
  groqRequest, \<open>bodyStr\<close> being the text written to the provider, if any;
  \<open>OnDone body\<close> is the call of readBody's continuation.\<close>

definition error_payload :: "string \<Rightarrow> json" where
  "error_payload message = JObj [(''error'', JObj [(''message'', JStr message)])]"

definition jsonError :: "nat \<Rightarrow> string \<Rightarrow> effect list" where
  "jsonError status message = [SendJson status (error_payload message)]"

section \<open>Upstream client (groqRequest)\<close>

text \<open>
  What the network answers to the one outbound call: a status code with the
  collected body, or an error (a timeout included) with its message.
\<close>

datatype upstream = Responded nat string | Failed string

definition missing_key_message :: string where
  "missing_key_message =
     ''GROQ_API_KEY environment variable is not set. Start the server with: GROQ_API_KEY=your_key npm run dev''"

text \<open>
  The result is the effects performed and the outcome handed to the callbacks:
  without an API key \<^verbatim>\<open>onError\<close> is called at once and nothing is sent.
  What is written is \<^verbatim>\<open>body ? JSON.stringify(body) : null\<close>.
\<close>

definition groqRequest ::
  "builtins \<Rightarrow> string \<Rightarrow> upstream \<Rightarrow> string \<Rightarrow> string \<Rightarrow> json option
     \<Rightarrow> effect list \<times> upstream" where
  "groqRequest B GROQ_API_KEY net method apiPath body =
     (if GROQ_API_KEY = [] then ([], Failed missing_key_message)
      else ([HttpsRequest method apiPath
               (if truthy body then map_option (JSON_stringify B) body else None)], net))"

text \<open>
  The objects that doGroqChat builds for the provider.  They are only ever given
  to \<^verbatim>\<open>JSON.stringify\<close>, which leaves out a property whose value is
  \<^verbatim>\<open>undefined\<close>: \<open>defined_props\<close> keeps the properties that have a value.
\<close>

definition defined_props :: "(string \<times> json option) list \<Rightarrow> (string \<times> json) list" where
  "defined_props kvs = List.map_filter (\<lambda>(k, v). map_option (Pair k) v) kvs"

fun block_json :: "block \<Rightarrow> json" where
  "block_json (TextBlock t) = JObj [(''type'', JStr ''text''), (''text'', JStr t)]"
| "block_json (ImageBlock url) =
     JObj [(''type'', JStr ''image_url''), (''image_url'', JObj [(''url'', JStr url)])]"

definition message_json :: "groq_message \<Rightarrow> json" where
  "message_json m =
     JObj (defined_props
       [(''role'', role m),
        (''content'', (case content m of
                         Plain c \<Rightarrow> c
                       | Blocks bs \<Rightarrow> Some (JArr (map block_json bs))))])"

definition chat_body_json :: "chat_body \<Rightarrow> json" where
  "chat_body_json b =
     JObj (defined_props
       [(''model'', model b),
        (''messages'', Some (JArr (map message_json (messages b)))),
        (''temperature'', Some (JNum (Finite (temperature b)))),
        (''max_tokens'', Some (JNum (Finite (of_nat (max_tokens b))))),
        (''stream'', Some (JBool (stream b)))])"

section \<open>Strings\<close>

text \<open>\<^verbatim>\<open>s.startsWith(p)\<close> and \<^verbatim>\<open>s.includes(w)\<close>; the latter is named \<open>str_includes\<close>,
  \<open>includes\<close> being a reserved word here.\<close>

fun startsWith :: "string \<Rightarrow> string \<Rightarrow> bool" where
  "startsWith s [] = True"
| "startsWith [] (p # ps) = False"
| "startsWith (c # cs) (p # ps) = (c = p \<and> startsWith cs ps)"

fun str_includes :: "string \<Rightarrow> string \<Rightarrow> bool" where
  "str_includes [] w = (w = [])"
| "str_includes (c # cs) w = (startsWith (c # cs) w \<or> str_includes cs w)"

section \<open>Model discovery (listModels)\<close>

definition GROQ_MODELS_FALLBACK :: json where
  "GROQ_MODELS_FALLBACK = JArr
     [JObj [(''name'', JStr ''meta-llama/llama-4-maverick-17b-128e-instruct'')],
      JObj [(''name'', JStr ''meta-llama/llama-4-scout-17b-16e-instruct'')],
      JObj [(''name'', JStr ''llama-3.3-70b-versatile'')],
      JObj [(''name'', JStr ''llama-3.1-8b-instant'')],
      JObj [(''name'', JStr ''llama3-70b-8192'')],
      JObj [(''name'', JStr ''llama3-8b-8192'')],
      JObj [(''name'', JStr ''gemma2-9b-it'')],
      JObj [(''name'', JStr ''mixtral-8x7b-32768'')]]"

text \<open>\<^verbatim>\<open>typeof m?.id === 'string' ? m.id : ''\<close>\<close>

definition model_id :: "json \<Rightarrow> string" where
  "model_id m = (case opt_get (Some m) ''id'' of Some (JStr s) \<Rightarrow> s | _ \<Rightarrow> [])"

text \<open>\<^verbatim>\<open>/whisper|tts|embed|guard/.test(id)\<close>\<close>

definition blocklisted :: "string \<Rightarrow> bool" where
  "blocklisted ident \<longleftrightarrow>
     str_includes ident ''whisper'' \<or> str_includes ident ''tts''
     \<or> str_includes ident ''embed'' \<or> str_includes ident ''guard''"

text \<open>The callback of \<^verbatim>\<open>.filter\<close>.\<close>

definition chat_capable :: "json \<Rightarrow> bool" where
  "chat_capable m =
     (let ident = model_id m in
      if ident = [] then False else if blocklisted ident then False else True)"

text \<open>The callback of \<^verbatim>\<open>.map\<close>: \<^verbatim>\<open>{ name: m.id }\<close>.  A property whose value is
  \<^verbatim>\<open>undefined\<close> is left out, as \<^verbatim>\<open>JSON.stringify\<close> leaves it out of the payload.\<close>

definition name_entry :: "json \<Rightarrow> json" where
  "name_entry m =
     JObj (case opt_get (Some m) ''id'' of Some v \<Rightarrow> [(''name'', v)] | None \<Rightarrow> [])"

definition models_payload :: "json \<Rightarrow> json" where
  "models_payload models = JObj [(''models'', models)]"

text \<open>\<^verbatim>\<open>Array.isArray(parsed?.data) ? parsed.data : []\<close>\<close>

definition rawModels :: "json \<Rightarrow> json list" where
  "rawModels parsed = (case opt_get (Some parsed) ''data'' of Some (JArr xs) \<Rightarrow> xs | _ \<Rightarrow> [])"

definition chatModels :: "json \<Rightarrow> json list" where
  "chatModels parsed = map name_entry (filter chat_capable (rawModels parsed))"

definition listModels_onDone :: "builtins \<Rightarrow> nat \<Rightarrow> string \<Rightarrow> effect list" where
  "listModels_onDone B statusCode data =
     (if statusCode \<ge> 400 then [SendJson 200 (models_payload GROQ_MODELS_FALLBACK)]
      else
        (case JSON_parse B data of
           None \<Rightarrow> [SendJson 200 (models_payload GROQ_MODELS_FALLBACK)]
         | Some parsed \<Rightarrow>
             (let models = (if chatModels parsed \<noteq> [] then JArr (chatModels parsed)
                            else GROQ_MODELS_FALLBACK)
              in [SendJson 200 (models_payload models)])))"

definition listModels_onError :: "string \<Rightarrow> effect list" where
  "listModels_onError message = [SendJson 200 (models_payload GROQ_MODELS_FALLBACK)]"

definition listModels :: "builtins \<Rightarrow> string \<Rightarrow> upstream \<Rightarrow> effect list" where
  "listModels B GROQ_API_KEY net =
     (case groqRequest B GROQ_API_KEY net ''GET'' ''/openai/v1/models'' None of
        (sent, outcome) \<Rightarrow>
          sent @ (case outcome of
                    Responded statusCode data \<Rightarrow> listModels_onDone B statusCode data
                  | Failed message \<Rightarrow> listModels_onError message))"

section \<open>Chat proxy (doGroqChat, proxyGroqChat)\<close>

text \<open>\<^verbatim>\<open>json?.error?.message || json?.message || 'Groq returned an error'\<close>\<close>

definition upstream_message :: "json \<Rightarrow> json option" where
  "upstream_message json =
     or_else (opt_get (opt_get (Some json) ''error'') ''message'')
       (or_else (opt_get (Some json) ''message'') (Some (JStr ''Groq returned an error'')))"

definition doGroqChat_onDone :: "builtins \<Rightarrow> nat \<Rightarrow> string \<Rightarrow> effect list" where
  "doGroqChat_onDone B statusCode data =
     (case JSON_parse B data of
        None \<Rightarrow> jsonError 502 (''Bad JSON from Groq: '' @ take 180 data)
      | Some json \<Rightarrow>
          if statusCode \<ge> 400 then
            (case js_String B (upstream_message json) of
               Inl e \<Rightarrow> [Uncaught e]
             | Inr message \<Rightarrow> jsonError statusCode (''Groq error: '' @ message))
          else
            (case opt_get (opt_get (opt_index0 (opt_get (Some json) ''choices'')) ''message'')
                    ''content'' of
               None \<Rightarrow>
                 jsonError 502 (''Groq returned empty content. Response preview: ''
                                  @ take 280 (JSON_stringify B json))
             | Some txt \<Rightarrow>
                 if \<not> truthy (Some txt) then
                   jsonError 502 (''Groq returned empty content. Response preview: ''
                                    @ take 280 (JSON_stringify B json))
                 else [SendJson 200 (JObj [(''text'', txt)])]))"

definition doGroqChat_onError :: "string \<Rightarrow> effect list" where
  "doGroqChat_onError message =
     (if str_includes message ''GROQ_API_KEY'' then jsonError 401 message
      else jsonError 502 (''Groq request failed: '' @ message))"

text \<open>
  \<^verbatim>\<open>messages.map\<close> throws when \<^verbatim>\<open>messages\<close> is not an array.  The log line
  before the request converts \<^verbatim>\<open>model\<close> to a string, which can throw.
\<close>

definition doGroqChat ::
  "builtins \<Rightarrow> string \<Rightarrow> upstream \<Rightarrow> json option \<Rightarrow> json option \<Rightarrow> effect list" where
  "doGroqChat B GROQ_API_KEY net mdl msgs =
     (case msgs of
        Some (JArr ms) \<Rightarrow>
          (case map_result (reshape B) ms of
             Inl e \<Rightarrow> [Uncaught e]
           | Inr groqMessages \<Rightarrow>
               (case js_String B mdl of
                  Inl e \<Rightarrow> [Uncaught e]
                | Inr logged \<Rightarrow>
                    (case groqRequest B GROQ_API_KEY net ''POST'' ''/openai/v1/chat/completions''
                            (Some (chat_body_json
                               \<lparr>model = mdl, messages = groqMessages, temperature = 4 / 10,
                                max_tokens = 1500, stream = False\<rparr>)) of
                       (sent, outcome) \<Rightarrow>
                         sent @ (case outcome of
                                   Responded statusCode data \<Rightarrow> doGroqChat_onDone B statusCode data
                                 | Failed message \<Rightarrow> doGroqChat_onError message))))
      | _ \<Rightarrow> [Uncaught TypeError])"

definition proxyGroqChat :: "builtins \<Rightarrow> string \<Rightarrow> upstream \<Rightarrow> string \<Rightarrow> effect list" where
  "proxyGroqChat B GROQ_API_KEY net body =
     (case JSON_parse B body of
        None \<Rightarrow> jsonError 400 ''Invalid JSON body''
      | Some parsed \<Rightarrow>
          if \<not> truthy (opt_get (Some parsed) ''model'')
             \<or> \<not> isArray (opt_get (Some parsed) ''messages'')
          then jsonError 400 ''Invalid payload. Expected { model, messages[] }''
          else doGroqChat B GROQ_API_KEY net (opt_get (Some parsed) ''model'')
                 (opt_get (Some parsed) ''messages''))"

section \<open>Static files (serveStatic)\<close>

text \<open>\<^verbatim>\<open>s.split(c)\<close> for a separator of one character: never the empty list.\<close>

fun split_on :: "char \<Rightarrow> string \<Rightarrow> string list" where
  "split_on c [] = [[]]"
| "split_on c (x # xs) =
     (if x = c then [] # split_on c xs
      else (case split_on c xs of [] \<Rightarrow> [[x]] | s # ss \<Rightarrow> (x # s) # ss))"

text \<open>
  Node's \<^verbatim>\<open>path.resolve\<close>, \<^verbatim>\<open>path.extname\<close> and \<^verbatim>\<open>path.sep\<close> on a POSIX system.
  \<open>normalize_segments\<close> is \<^verbatim>\<open>normalizeString\<close> read segment by segment: empty
  segments and \<^verbatim>\<open>.\<close> are dropped, \<^verbatim>\<open>..\<close> removes the segment before it, and at the
  top it is dropped, or kept when \<open>allowAboveRoot\<close>.
\<close>

fun normalize_segments :: "bool \<Rightarrow> string list \<Rightarrow> string list \<Rightarrow> string list" where
  "normalize_segments allowAboveRoot res [] = res"
| "normalize_segments allowAboveRoot res (seg # segs) =
     (if seg = [] \<or> seg = ''.'' then normalize_segments allowAboveRoot res segs
      else if seg = ''..'' then
        (if res \<noteq> [] \<and> last res \<noteq> ''..''
         then normalize_segments allowAboveRoot (butlast res) segs
         else if allowAboveRoot then normalize_segments allowAboveRoot (res @ [''..'']) segs
         else normalize_segments allowAboveRoot res segs)
      else normalize_segments allowAboveRoot (res @ [seg]) segs)"

text \<open>The loop of \<^verbatim>\<open>path.resolve\<close> over its arguments from the last to the first,
  the working directory after them, until an absolute one is met.\<close>

fun resolve_args :: "string list \<Rightarrow> string \<Rightarrow> string \<times> bool" where
  "resolve_args [] resolvedPath = (resolvedPath, False)"
| "resolve_args (p # ps) resolvedPath =
     (if p = [] then resolve_args ps resolvedPath
      else if startsWith p ''/'' then (p @ ''/'' @ resolvedPath, True)
      else resolve_args ps (p @ ''/'' @ resolvedPath))"

definition path_resolve :: "string \<Rightarrow> string list \<Rightarrow> string" where
  "path_resolve cwd args =
     (case resolve_args (rev args @ [cwd]) [] of
        (resolvedPath, resolvedAbsolute) \<Rightarrow>
          (let n = join ''/'' (normalize_segments (\<not> resolvedAbsolute) []
                                (split_on CHR ''/'' resolvedPath))
           in if resolvedAbsolute then ''/'' @ n else if n \<noteq> [] then n else ''.''))"

definition path_extname :: "string \<Rightarrow> string" where
  "path_extname p =
     (let base = rev (takeWhile (\<lambda>c. c \<noteq> CHR ''/'') (dropWhile (\<lambda>c. c = CHR ''/'') (rev p)));
          ext = rev (takeWhile (\<lambda>c. c \<noteq> CHR ''.'') (rev base))
      in if CHR ''.'' \<notin> set base \<or> length ext + 1 = length base \<or> base = ''..'' then []
         else CHR ''.'' # ext)"

definition MIME :: "string \<Rightarrow> string option" where
  "MIME = map_of
     [(''.html'', ''text/html; charset=utf-8''),
      (''.js'', ''text/javascript; charset=utf-8''),
      (''.css'', ''text/css; charset=utf-8''),
      (''.json'', ''application/json; charset=utf-8'')]"

text \<open>
  \<open>STATIC_ROOT\<close> is \<^verbatim>\<open>__dirname\<close>, \<open>cwd\<close> the working directory, and \<open>fs\<close> the
  files that \<^verbatim>\<open>fs.readFile\<close> can read, with their contents.
\<close>

definition serveStatic ::
  "string \<Rightarrow> string \<Rightarrow> (string \<Rightarrow> string option) \<Rightarrow> string \<Rightarrow> effect list" where
  "serveStatic STATIC_ROOT cwd fs reqPath =
     (let file = (if reqPath = ''/'' then ''/math-solver.html'' else reqPath);
          root = path_resolve cwd [STATIC_ROOT] @ ''/'';
          resolved = path_resolve cwd [STATIC_ROOT, ''.'' @ file]
      in if \<not> startsWith resolved root then jsonError 403 ''Forbidden''
         else ReadFile resolved #
              (case fs resolved of
                 None \<Rightarrow> jsonError 404 (''Not found: '' @ file)
               | Some data \<Rightarrow>
                   [SendFile 200
                      (case MIME (path_extname resolved) of
                         Some t \<Rightarrow> t | None \<Rightarrow> ''text/plain; charset=utf-8'')
                      data]))"

section \<open>Request body (readBody)\<close>

text \<open>The decimal digits of a byte limit, as the template literal prints it.\<close>

definition digit_char :: "nat \<Rightarrow> char" where
  "digit_char d =
     (if d = 0 then CHR ''0'' else if d = 1 then CHR ''1'' else if d = 2 then CHR ''2''
      else if d = 3 then CHR ''3'' else if d = 4 then CHR ''4'' else if d = 5 then CHR ''5''
      else if d = 6 then CHR ''6'' else if d = 7 then CHR ''7'' else if d = 8 then CHR ''8''
      else CHR ''9'')"

fun decimal :: "nat \<Rightarrow> string" where
  "decimal n =
     (if n < 10 then [digit_char n] else decimal (n div 10) @ [digit_char (n mod 10)])"

declare decimal.simps [simp del]

definition MAX_CHAT_BYTES :: nat where
  "MAX_CHAT_BYTES = 20000000"

record read_state =
  body :: string
  done_flag :: bool
  bytes :: nat

datatype request_event = Data string | End | Error string

definition read_init :: read_state where
  "read_init = \<lparr>body = [], done_flag = False, bytes = 0\<rparr>"

text \<open>The three listeners.  Each returns the state it leaves and its effects.\<close>

definition on_data :: "builtins \<Rightarrow> nat \<Rightarrow> read_state \<Rightarrow> string \<Rightarrow> read_state \<times> effect list" where
  "on_data B limit st chunk =
     (let st1 = st\<lparr>bytes := bytes st + length chunk\<rparr> in
      if bytes st1 > limit then
        (if \<not> done_flag st1
         then (st1\<lparr>done_flag := True\<rparr>,
               jsonError 413 (''Request body too large (limit '' @ decimal limit @ '' bytes)'')
                 @ [DestroyRequest])
         else (st1, []))
      else (st1\<lparr>body := body st1 @ Buffer_toString B chunk\<rparr>, []))"

definition on_end :: "read_state \<Rightarrow> read_state \<times> effect list" where
  "on_end st = (st, if \<not> done_flag st then [OnDone (body st)] else [])"

definition on_error :: "read_state \<Rightarrow> string \<Rightarrow> read_state \<times> effect list" where
  "on_error st message =
     (st, if \<not> done_flag st then jsonError 400 ''Failed to read request body'' else [])"

fun on_event :: "builtins \<Rightarrow> nat \<Rightarrow> read_state \<Rightarrow> request_event \<Rightarrow> read_state \<times> effect list" where
  "on_event B limit st (Data chunk) = on_data B limit st chunk"
| "on_event B limit st End = on_end st"
| "on_event B limit st (Error message) = on_error st message"

text \<open>The events of one request, delivered in order to the listeners.\<close>

fun run_events ::
  "builtins \<Rightarrow> nat \<Rightarrow> read_state \<Rightarrow> request_event list \<Rightarrow> read_state \<times> effect list" where
  "run_events B limit st [] = (st, [])"
| "run_events B limit st (ev # evs) =
     (case on_event B limit st ev of
        (st1, out1) \<Rightarrow>
          (case run_events B limit st1 evs of (st2, out2) \<Rightarrow> (st2, out1 @ out2)))"

definition readBody :: "builtins \<Rightarrow> nat \<Rightarrow> request_event list \<Rightarrow> read_state \<times> effect list" where
  "readBody B limit evs = run_events B limit read_init evs"

section \<open>Environment file (the loader at the top of the file)\<close>

text \<open>The white space that \<^verbatim>\<open>trim\<close> removes, among the code units represented.\<close>

definition is_space :: "char \<Rightarrow> bool" where
  "is_space c \<longleftrightarrow>
     c = CHR 0x09 \<or> c = CHR 0x0A \<or> c = CHR 0x0B \<or> c = CHR 0x0C \<or> c = CHR 0x0D
     \<or> c = CHR '' '' \<or> c = CHR 0xA0"

definition trim :: "string \<Rightarrow> string" where
  "trim s = rev (dropWhile is_space (rev (dropWhile is_space s)))"

text \<open>What one line assigns: \<^verbatim>\<open>const [key, ...val] = line.trim().split('=')\<close>,
  then \<^verbatim>\<open>if (key && val.length)\<close>.\<close>

definition line_entry :: "string \<Rightarrow> (string \<times> string) option" where
  "line_entry line =
     (case split_on CHR ''='' (trim line) of
        [] \<Rightarrow> None
      | key # val \<Rightarrow>
          if key \<noteq> [] \<and> val \<noteq> [] then Some (trim key, trim (join ''='' val)) else None)"

definition load_line :: "(string \<rightharpoonup> string) \<Rightarrow> string \<Rightarrow> (string \<rightharpoonup> string)" where
  "load_line env line =
     (case line_entry line of None \<Rightarrow> env | Some (key, v) \<Rightarrow> env(key \<mapsto> v))"

text \<open>\<open>file\<close> is the content of \<^verbatim>\<open>.env\<close>, or \<^term>\<open>None\<close> when it does not exist.\<close>

definition load_env :: "(string \<rightharpoonup> string) \<Rightarrow> string option \<Rightarrow> (string \<rightharpoonup> string)" where
  "load_env env file =
     (case file of
        None \<Rightarrow> env
      | Some contents \<Rightarrow> foldl load_line env (split_on CHR 0x0A contents))"

section \<open>Observations on effects and notions used by the properties\<close>

text \<open>The status codes of the responses written, in order.\<close>

fun response_statuses :: "effect list \<Rightarrow> nat list" where
  "response_statuses [] = []"
| "response_statuses (SendJson status payload # es) = status # response_statuses es"
| "response_statuses (SendFile status ctype data # es) = status # response_statuses es"
| "response_statuses (e # es) = response_statuses es"

text \<open>The outbound calls to the provider, in order.\<close>

fun outbound_calls :: "effect list \<Rightarrow> effect list" where
  "outbound_calls [] = []"
| "outbound_calls (HttpsRequest m p b # es) = HttpsRequest m p b # outbound_calls es"
| "outbound_calls (e # es) = outbound_calls es"

text \<open>The files read, in order.\<close>

fun files_read :: "effect list \<Rightarrow> string list" where
  "files_read [] = []"
| "files_read (ReadFile p # es) = p # files_read es"
| "files_read (e # es) = files_read es"

text \<open>
  The directory names of an absolute path.  A path lies inside a directory when
  the directory's names are the first names of the path.
\<close>

definition path_segments :: "string \<Rightarrow> string list" where
  "path_segments p = filter (\<lambda>s. s \<noteq> []) (split_on CHR ''/'' p)"

definition inside_directory :: "string \<Rightarrow> string \<Rightarrow> bool" where
  "inside_directory dir p \<longleftrightarrow> prefix (path_segments dir) (path_segments p)"

text \<open>The bytes received in the \<open>Data\<close> events of a request.\<close>

fun chunk_bytes :: "request_event list \<Rightarrow> nat" where
  "chunk_bytes [] = 0"
| "chunk_bytes (Data chunk # evs) = length chunk + chunk_bytes evs"
| "chunk_bytes (ev # evs) = chunk_bytes evs"

fun is_data :: "request_event \<Rightarrow> bool" where
  "is_data (Data chunk) = True"
| "is_data ev = False"

text \<open>The assignments of an environment file, line by line.\<close>

definition file_entries :: "string \<Rightarrow> (string \<times> string) list" where
  "file_entries contents = List.map_filter line_entry (split_on CHR 0x0A contents)"

subsection \<open>Image attachments as the specification describes them\<close>

text \<open>
  An attachment is a string of base64 data, or an object with a string \<^verbatim>\<open>data\<close>
  and, when it has one, a string \<^verbatim>\<open>mime\<close>.  Its MIME type is unspecified when
  \<^verbatim>\<open>mime\<close> is absent or empty.
\<close>

fun well_formed_attachment :: "json \<Rightarrow> bool" where
  "well_formed_attachment (JStr d) = True"
| "well_formed_attachment (JObj kvs) =
     ((case map_of kvs ''data'' of Some (JStr d) \<Rightarrow> True | _ \<Rightarrow> False)
      \<and> (case map_of kvs ''mime'' of None \<Rightarrow> True | Some (JStr t) \<Rightarrow> True | _ \<Rightarrow> False))"
| "well_formed_attachment _ = False"

fun attachment_data :: "json \<Rightarrow> string" where
  "attachment_data (JStr d) = d"
| "attachment_data (JObj kvs) = (case map_of kvs ''data'' of Some (JStr d) \<Rightarrow> d | _ \<Rightarrow> [])"
| "attachment_data _ = []"

fun attachment_mime :: "json \<Rightarrow> string" where
  "attachment_mime (JObj kvs) =
     (case map_of kvs ''mime'' of
        Some (JStr t) \<Rightarrow> if t = [] then ''image/png'' else t
      | _ \<Rightarrow> ''image/png'')"
| "attachment_mime _ = ''image/png''"

definition text_blocks :: "string \<Rightarrow> block list" where
  "text_blocks c = (if c = [] then [] else [TextBlock c])"

definition image_blocks :: "json list \<Rightarrow> block list" where
  "image_blocks imgs =
     map (\<lambda>a. ImageBlock (''data:'' @ attachment_mime a @ '';base64,'' @ attachment_data a))
       (filter (\<lambda>a. attachment_data a \<noteq> []) imgs)"

subsection \<open>Built-ins for the examples\<close>

text \<open>
  A table of the few texts the examples parse, with the values \<^verbatim>\<open>JSON.parse\<close>
  gives them; any other text counts as not JSON here.
\<close>

definition sample_parse :: "string \<Rightarrow> json option" where
  \<open>sample_parse s =
     (if s = ''{"model":7,"messages":[]}''
        then Some (JObj [(''model'', JNum (Finite 7)), (''messages'', JArr [])])
      else if s = ''{"model":0,"messages":[]}''
        then Some (JObj [(''model'', JNum (Finite 0)), (''messages'', JArr [])])
      else if s = ''{"messages":[]}''
        then Some (JObj [(''messages'', JArr [])])
      else if s = ''{"model":"x","messages":"hi"}''
        then Some (JObj [(''model'', JStr ''x''), (''messages'', JStr ''hi'')])
      else if s = ''{"model":{"toString":true},"messages":[]}''
        then Some (JObj [(''model'', JObj [(''toString'', JBool True)]), (''messages'', JArr [])])
      else if s = ''{"error":{"message":"boom"}}''
        then Some (JObj [(''error'', JObj [(''message'', JStr ''boom'')])])
      else if s = ''{"data":[{"id":"llama-x"},{"id":"whisper-large-v3"},{"id":5}]}''
        then Some (JObj [(''data'', JArr [JObj [(''id'', JStr ''llama-x'')],
                                          JObj [(''id'', JStr ''whisper-large-v3'')],
                                          JObj [(''id'', JNum (Finite 5))]])])
      else if s = ''{"data":[{"id":"whisper-large-v3"}]}''
        then Some (JObj [(''data'', JArr [JObj [(''id'', JStr ''whisper-large-v3'')]])])
      else None)\<close>

definition sample_number :: "jsnum \<Rightarrow> string" where
  "sample_number n = (if n = Finite 7 then ''7'' else if n = Finite 5 then ''5'' else ''0'')"

text \<open>The one value the examples serialise, with the text \<^verbatim>\<open>JSON.stringify\<close> gives it.\<close>

definition sample_stringify :: "json \<Rightarrow> string" where
  \<open>sample_stringify j =
     (if j = JObj [(''model'', JNum (Finite 7)), (''messages'', JArr []),
                   (''temperature'', JNum (Finite (4 / 10))),
                   (''max_tokens'', JNum (Finite 1500)), (''stream'', JBool False)]
        then ''{"model":7,"messages":[],"temperature":0.4,"max_tokens":1500,"stream":false}''
      else ''{}'')\<close>

definition sample_builtins :: builtins where
  "sample_builtins =
     \<lparr>JSON_parse = sample_parse, JSON_stringify = sample_stringify,
      Number_toString = sample_number, Buffer_toString = (\<lambda>chunk. chunk)\<rparr>"

section \<open>Properties of the chat proxy: malformed bodies\<close>

lemma sample_parse_not_json: "JSON_parse sample_builtins ''Service Unavailable'' = None"
  by (simp add: sample_builtins_def sample_parse_def)

text \<open>
  C9.  In the callback for the provider's answer, the body is parsed before the
  status is looked at: whenever the raw body is not valid JSON the handler
  answers HTTP 502 with the first 180 characters of the body in its message,
  whatever the upstream status, a status of 400 or more included.
\<close>

theorem chat_bad_json_is_502:
  "JSON_parse B data = None \<Longrightarrow>
   doGroqChat_onDone B statusCode data =
     [SendJson 502 (error_payload (''Bad JSON from Groq: '' @ take 180 data))]"
  by (simp add: doGroqChat_onDone_def jsonError_def)

theorem chat_bad_json_is_502_witness:
  "JSON_parse sample_builtins ''Service Unavailable'' = None \<and>
   doGroqChat_onDone sample_builtins 503 ''Service Unavailable'' =
     [SendJson 502 (error_payload ''Bad JSON from Groq: Service Unavailable'')]"
  using chat_bad_json_is_502 [of sample_builtins "''Service Unavailable''" 503]
    sample_parse_not_json by simp

text \<open>
  C2.  A chat request whose body is not valid JSON, or whose parsed body has no
  \<^verbatim>\<open>model\<close>, or whose \<^verbatim>\<open>messages\<close> is not an array, is answered with HTTP 400
  and an \<^verbatim>\<open>{error: {message}}\<close> payload, and no call to the provider is made.
\<close>

theorem chat_invalid_payload_is_400:
  "JSON_parse B raw = None
   \<or> (\<exists>parsed. JSON_parse B raw = Some parsed
        \<and> (opt_get (Some parsed) ''model'' = None
           \<or> \<not> isArray (opt_get (Some parsed) ''messages''))) \<Longrightarrow>
   (\<exists>message. proxyGroqChat B GROQ_API_KEY net raw = [SendJson 400 (error_payload message)])
   \<and> outbound_calls (proxyGroqChat B GROQ_API_KEY net raw) = []"
  by (auto simp: proxyGroqChat_def jsonError_def)

theorem chat_invalid_payload_is_400_witness:
  \<open>JSON_parse sample_builtins ''{"messages":[]}'' = Some (JObj [(''messages'', JArr [])])
   \<and> opt_get (Some (JObj [(''messages'', JArr [])])) ''model'' = None
   \<and> (\<exists>message.
         proxyGroqChat sample_builtins ''gsk_key'' (Responded 200 ''{}'') ''{"messages":[]}''
           = [SendJson 400 (error_payload message)])
   \<and> outbound_calls
         (proxyGroqChat sample_builtins ''gsk_key'' (Responded 200 ''{}'') ''{"messages":[]}'')
       = []\<close>
  using chat_invalid_payload_is_400
    [of sample_builtins \<open>''{"messages":[]}''\<close> "''gsk_key''" "Responded 200 ''{}''"]
  by (simp add: sample_builtins_def sample_parse_def)

section \<open>Facts about strings\<close>

lemma startsWith_iff: "startsWith s p \<longleftrightarrow> (\<exists>q. s = p @ q)"
  by (induction s p rule: startsWith.induct) auto

lemma str_includes_iff: "str_includes s w \<longleftrightarrow> (\<exists>p q. s = p @ w @ q)"
proof (induction s)
  case Nil
  then show ?case by simp
next
  case (Cons c cs)
  show ?case
  proof
    assume "str_includes (c # cs) w"
    then consider "startsWith (c # cs) w" | "str_includes cs w" by auto
    then show "\<exists>p q. c # cs = p @ w @ q"
    proof cases
      case 1
      then obtain q where "c # cs = w @ q" by (auto simp: startsWith_iff)
      then have "c # cs = [] @ w @ q" by simp
      then show ?thesis by blast
    next
      case 2
      then obtain p q where "cs = p @ w @ q" using Cons.IH by blast
      then have "c # cs = (c # p) @ w @ q" by simp
      then show ?thesis by blast
    qed
  next
    assume "\<exists>p q. c # cs = p @ w @ q"
    then obtain p q where pq: "c # cs = p @ w @ q" by blast
    show "str_includes (c # cs) w"
    proof (cases p)
      case Nil
      with pq have "startsWith (c # cs) w" by (auto simp: startsWith_iff)
      then show ?thesis by simp
    next
      case (Cons a p')
      with pq have "cs = p' @ w @ q" by simp
      then have "str_includes cs w" using Cons.IH by blast
      then show ?thesis by simp
    qed
  qed
qed

section \<open>Properties of model discovery: the filter\<close>

lemma blocklisted_iff:
  "blocklisted s \<longleftrightarrow>
     (\<exists>w \<in> {''whisper'', ''tts'', ''embed'', ''guard''}. \<exists>p q. s = p @ w @ q)"
  unfolding blocklisted_def str_includes_iff by blast

lemma name_entry_survivor:
  "chat_capable m \<Longrightarrow> name_entry m = JObj [(''name'', JStr (model_id m))]"
  by (auto simp: chat_capable_def name_entry_def model_id_def Let_def
      split: option.splits json.splits if_splits)

lemma chat_capable_iff:
  "chat_capable m \<longleftrightarrow>
     (\<exists>s. opt_get (Some m) ''id'' = Some (JStr s) \<and> s \<noteq> []
          \<and> \<not> (\<exists>w \<in> {''whisper'', ''tts'', ''embed'', ''guard''}. \<exists>p q. s = p @ w @ q))"
  unfolding chat_capable_def Let_def blocklisted_iff [symmetric] model_id_def
  by (auto split: option.splits json.splits)

text \<open>
  C8.  On a successful listing the entries kept are exactly those whose \<^verbatim>\<open>id\<close> is
  a string, not empty, that contains none of \<^verbatim>\<open>whisper\<close>, \<^verbatim>\<open>tts\<close>, \<^verbatim>\<open>embed\<close>,
  \<^verbatim>\<open>guard\<close> as a literal, case-sensitive substring; each entry kept becomes
  \<^verbatim>\<open>{name: id}\<close>, in the order of the listing; and when some entry is kept these
  are the models returned.  (\<open>model_id m\<close> is the string \<^verbatim>\<open>id\<close> of \<open>m\<close>, or the
  empty string when \<open>m\<close> has no string \<^verbatim>\<open>id\<close>.)
\<close>

theorem models_filtered_and_mapped:
  "chatModels parsed =
     map (\<lambda>m. JObj [(''name'', JStr (model_id m))])
       (filter (\<lambda>m. \<exists>s. opt_get (Some m) ''id'' = Some (JStr s) \<and> s \<noteq> []
                  \<and> \<not> (\<exists>w \<in> {''whisper'', ''tts'', ''embed'', ''guard''}.
                          \<exists>p q. s = p @ w @ q))
          (rawModels parsed))
   \<and> (statusCode < 400 \<and> JSON_parse B data = Some parsed \<and> chatModels parsed \<noteq> [] \<longrightarrow>
        listModels_onDone B statusCode data
          = [SendJson 200 (models_payload (JArr (chatModels parsed)))])"
proof -
  have "chatModels parsed
          = map (\<lambda>m. JObj [(''name'', JStr (model_id m))]) (filter chat_capable (rawModels parsed))"
    unfolding chatModels_def by (rule map_cong) (auto simp: name_entry_survivor)
  moreover have "filter chat_capable (rawModels parsed)
      = filter (\<lambda>m. \<exists>s. opt_get (Some m) ''id'' = Some (JStr s) \<and> s \<noteq> []
                  \<and> \<not> (\<exists>w \<in> {''whisper'', ''tts'', ''embed'', ''guard''}.
                          \<exists>p q. s = p @ w @ q)) (rawModels parsed)"
    by (rule filter_cong) (auto simp: chat_capable_iff)
  ultimately show ?thesis
    by (simp add: listModels_onDone_def)
qed


theorem models_filtered_and_mapped_witness:
  \<open>chatModels (JObj [(''data'', JArr [JObj [(''id'', JStr ''llama-x'')],
                                       JObj [(''id'', JStr ''whisper-large-v3'')],
                                       JObj [(''id'', JNum (Finite 5))]])])
     = [JObj [(''name'', JStr ''llama-x'')]]
   \<and> listModels_onDone sample_builtins 200
         ''{"data":[{"id":"llama-x"},{"id":"whisper-large-v3"},{"id":5}]}''
       = [SendJson 200 (models_payload (JArr [JObj [(''name'', JStr ''llama-x'')]]))]\<close>
proof -
  let ?p = "JObj [(''data'', JArr [JObj [(''id'', JStr ''llama-x'')],
                                  JObj [(''id'', JStr ''whisper-large-v3'')],
                                  JObj [(''id'', JNum (Finite 5))]])]"
  have c: "chatModels ?p = [JObj [(''name'', JStr ''llama-x'')]]"
    by (simp add: chatModels_def rawModels_def chat_capable_def model_id_def blocklisted_def
        name_entry_def)
  have p: \<open>JSON_parse sample_builtins
             ''{"data":[{"id":"llama-x"},{"id":"whisper-large-v3"},{"id":5}]}'' = Some ?p\<close>
    by (simp add: sample_builtins_def sample_parse_def)
  from models_filtered_and_mapped
         [of ?p 200 sample_builtins \<open>''{"data":[{"id":"llama-x"},{"id":"whisper-large-v3"},{"id":5}]}''\<close>]
       c p
  show ?thesis by simp
qed

section \<open>Properties of the chat proxy: upstream answers and validation\<close>

lemma sample_parse_boom:
  \<open>JSON_parse sample_builtins ''{"error":{"message":"boom"}}''
     = Some (JObj [(''error'', JObj [(''message'', JStr ''boom'')])])\<close>
  by (simp add: sample_builtins_def sample_parse_def)

text \<open>
  C3.  The claim that every upstream answer with a status of 400 or more is
  passed on with that status fails when the body is not JSON: an answer 500
  with a plain-text body is turned into 502.
\<close>

theorem chat_upstream_status_counterexample:
  "doGroqChat_onDone sample_builtins 500 ''upstream exploded''
     = [SendJson 502 (error_payload ''Bad JSON from Groq: upstream exploded'')]"
  by (simp add: doGroqChat_onDone_def jsonError_def sample_builtins_def sample_parse_def)

text \<open>
  C3, as amended.  Take an upstream answer whose status is 400 or more and whose
  body parses as JSON, and the message selected from the body: its
  \<^verbatim>\<open>error.message\<close> when that is truthy, else its top-level \<^verbatim>\<open>message\<close> when that
  is truthy, else the generic \<^verbatim>\<open>Groq returned an error\<close>.  When the selected
  message converts to a string, the response carries the upstream status, and
  its message is \<^verbatim>\<open>Groq error: \<close> followed by that string.  Every string, number
  and boolean converts.
\<close>

theorem chat_upstream_status_propagated:
  assumes "JSON_parse B data = Some json" and "400 \<le> statusCode"
    and "js_String B
           (if truthy (opt_get (opt_get (Some json) ''error'') ''message'')
            then opt_get (opt_get (Some json) ''error'') ''message''
            else if truthy (opt_get (Some json) ''message'') then opt_get (Some json) ''message''
            else Some (JStr ''Groq returned an error'')) = Inr message"
  shows "doGroqChat_onDone B statusCode data
           = [SendJson statusCode (error_payload (''Groq error: '' @ message))]
         \<and> js_String B (Some (JStr s)) = Inr s
         \<and> js_String B (Some (JNum n)) = Inr (Number_toString B n)
         \<and> js_String B (Some (JBool b)) = Inr (if b then ''true'' else ''false'')"
  using assms
  by (simp add: doGroqChat_onDone_def upstream_message_def or_else_def jsonError_def
      split: if_splits)

theorem chat_upstream_status_propagated_witness:
  \<open>JSON_parse sample_builtins ''{"error":{"message":"boom"}}''
     = Some (JObj [(''error'', JObj [(''message'', JStr ''boom'')])])
   \<and> (400::nat) \<le> 500
   \<and> doGroqChat_onDone sample_builtins 500 ''{"error":{"message":"boom"}}''
       = [SendJson 500 (error_payload ''Groq error: boom'')]\<close>
proof -
  have m: "js_String sample_builtins
             (if truthy (opt_get (opt_get (Some (JObj [(''error'', JObj [(''message'', JStr ''boom'')])]))
                                    ''error'') ''message'')
              then opt_get (opt_get (Some (JObj [(''error'', JObj [(''message'', JStr ''boom'')])]))
                              ''error'') ''message''
              else if truthy (opt_get (Some (JObj [(''error'', JObj [(''message'', JStr ''boom'')])]))
                                ''message'')
              then opt_get (Some (JObj [(''error'', JObj [(''message'', JStr ''boom'')])])) ''message''
              else Some (JStr ''Groq returned an error'')) = Inr ''boom''"
    by simp
  have le: "(400::nat) \<le> 500" by simp
  from chat_upstream_status_propagated [OF sample_parse_boom le m]
  have \<open>doGroqChat_onDone sample_builtins 500 ''{"error":{"message":"boom"}}''
          = [SendJson 500 (error_payload ''Groq error: boom'')]\<close>
    by simp
  with sample_parse_boom le show ?thesis by simp
qed

lemma outbound_calls_jsonError [simp]: "outbound_calls (jsonError status message) = []"
  by (simp add: jsonError_def)

lemma outbound_calls_onDone [simp]: "outbound_calls (doGroqChat_onDone B statusCode data) = []"
  by (simp add: doGroqChat_onDone_def split: option.splits sum.splits)

lemma outbound_calls_onError [simp]: "outbound_calls (doGroqChat_onError message) = []"
  by (simp add: doGroqChat_onError_def)




section \<open>Properties of model discovery: the fallback list\<close>

text \<open>
  C4.  The claim that every upstream status outside 2xx gives the fallback list
  fails for a status below 400: an answer 302 whose JSON body lists a chat model
  gives that model, not the fallback list.
\<close>

theorem models_redirect_counterexample:
  \<open>listModels sample_builtins ''gsk_key''
       (Responded 302 ''{"data":[{"id":"llama-x"},{"id":"whisper-large-v3"},{"id":5}]}'')
     = [HttpsRequest ''GET'' ''/openai/v1/models'' None,
        SendJson 200 (models_payload (JArr [JObj [(''name'', JStr ''llama-x'')]]))]
   \<and> JArr [JObj [(''name'', JStr ''llama-x'')]] \<noteq> GROQ_MODELS_FALLBACK\<close>
  by (simp add: listModels_def groqRequest_def listModels_onDone_def sample_builtins_def
      sample_parse_def chatModels_def rawModels_def chat_capable_def model_id_def
      blocklisted_def name_entry_def GROQ_MODELS_FALLBACK_def)

text \<open>
  C4, as amended.  Model discovery always answers HTTP 200, and the models are
  exactly the hardcoded fallback list when the API key is missing, on a
  transport error, on an upstream status of 400 or more, on a body that is not
  JSON, and when no entry survives the filter.
\<close>

theorem models_never_an_error:
  "response_statuses (listModels B GROQ_API_KEY net) = [200]
   \<and> (GROQ_API_KEY = [] \<longrightarrow>
        listModels B GROQ_API_KEY net = [SendJson 200 (models_payload GROQ_MODELS_FALLBACK)])
   \<and> (GROQ_API_KEY \<noteq> [] \<longrightarrow>
        listModels B GROQ_API_KEY (Failed message)
          = [HttpsRequest ''GET'' ''/openai/v1/models'' None,
             SendJson 200 (models_payload GROQ_MODELS_FALLBACK)])
   \<and> (GROQ_API_KEY \<noteq> [] \<and> 400 \<le> statusCode \<longrightarrow>
        listModels B GROQ_API_KEY (Responded statusCode data)
          = [HttpsRequest ''GET'' ''/openai/v1/models'' None,
             SendJson 200 (models_payload GROQ_MODELS_FALLBACK)])
   \<and> (GROQ_API_KEY \<noteq> [] \<and> JSON_parse B data = None \<longrightarrow>
        listModels B GROQ_API_KEY (Responded statusCode data)
          = [HttpsRequest ''GET'' ''/openai/v1/models'' None,
             SendJson 200 (models_payload GROQ_MODELS_FALLBACK)])
   \<and> (GROQ_API_KEY \<noteq> [] \<and> JSON_parse B data = Some parsed \<and> chatModels parsed = [] \<longrightarrow>
        listModels B GROQ_API_KEY (Responded statusCode data)
          = [HttpsRequest ''GET'' ''/openai/v1/models'' None,
             SendJson 200 (models_payload GROQ_MODELS_FALLBACK)])"
  by (auto simp: listModels_def groqRequest_def listModels_onDone_def listModels_onError_def
      split: upstream.splits option.splits)

theorem models_never_an_error_witness:
  \<open>response_statuses (listModels sample_builtins ''gsk_key'' (Failed ''ECONNREFUSED'')) = [200]
   \<and> listModels sample_builtins [] (Failed ''ECONNREFUSED'')
       = [SendJson 200 (models_payload GROQ_MODELS_FALLBACK)]
   \<and> listModels sample_builtins ''gsk_key'' (Failed ''ECONNREFUSED'')
       = [HttpsRequest ''GET'' ''/openai/v1/models'' None,
          SendJson 200 (models_payload GROQ_MODELS_FALLBACK)]
   \<and> listModels sample_builtins ''gsk_key'' (Responded 503 ''Service Unavailable'')
       = [HttpsRequest ''GET'' ''/openai/v1/models'' None,
          SendJson 200 (models_payload GROQ_MODELS_FALLBACK)]
   \<and> listModels sample_builtins ''gsk_key'' (Responded 200 ''{"data":[{"id":"whisper-large-v3"}]}'')
       = [HttpsRequest ''GET'' ''/openai/v1/models'' None,
          SendJson 200 (models_payload GROQ_MODELS_FALLBACK)]\<close>
proof -
  have p: \<open>JSON_parse sample_builtins ''{"data":[{"id":"whisper-large-v3"}]}''
             = Some (JObj [(''data'', JArr [JObj [(''id'', JStr ''whisper-large-v3'')]])])\<close>
    by (simp add: sample_builtins_def sample_parse_def)
  have c: "chatModels (JObj [(''data'', JArr [JObj [(''id'', JStr ''whisper-large-v3'')]])]) = []"
    by (simp add: chatModels_def rawModels_def chat_capable_def model_id_def blocklisted_def)
  from models_never_an_error
         [where B = sample_builtins and GROQ_API_KEY = "''gsk_key''"
            and net = "Failed ''ECONNREFUSED''" and message = "''ECONNREFUSED''"
            and statusCode = 503 and data = "''Service Unavailable''"]
       models_never_an_error
         [where B = sample_builtins and GROQ_API_KEY = "[]" and net = "Failed ''ECONNREFUSED''"]
       models_never_an_error
         [where B = sample_builtins and GROQ_API_KEY = "''gsk_key''" and statusCode = 200
            and data = \<open>''{"data":[{"id":"whisper-large-v3"}]}''\<close>
            and parsed = "JObj [(''data'', JArr [JObj [(''id'', JStr ''whisper-large-v3'')]])]"]
       p c
  show ?thesis by simp
qed

section \<open>Properties of the environment file\<close>

lemma foldl_load_line:
  "foldl load_line env ls = env ++ map_of (rev (List.map_filter line_entry ls))"
proof (induction ls arbitrary: env)
  case Nil
  then show ?case by simp
next
  case (Cons l ls)
  have step: "foldl load_line env (l # ls)
                = load_line env l ++ map_of (rev (List.map_filter line_entry ls))"
    by (simp add: Cons.IH)
  show ?case
  proof (cases "line_entry l")
    case None
    then have "load_line env l = env" by (simp add: load_line_def)
    with None step show ?thesis by simp
  next
    case (Some kv)
    obtain k v where kv: "kv = (k, v)" by (cases kv)
    have "load_line env l = env(k \<mapsto> v)" by (simp add: load_line_def Some kv)
    moreover have "env(k \<mapsto> v) ++ map_of (rev (List.map_filter line_entry ls))
                     = env ++ ([k \<mapsto> v] ++ map_of (rev (List.map_filter line_entry ls)))"
      by (rule ext) (simp add: map_add_def split: option.splits)
    ultimately show ?thesis using step by (simp add: Some kv)
  qed
qed

text \<open>
  C7.  The claim that a variable already set keeps its value fails: with
  \<^verbatim>\<open>PORT=8080\<close> in the environment, loading a file with the line \<^verbatim>\<open>PORT=3000\<close>
  leaves \<^verbatim>\<open>PORT\<close> at 3000.
\<close>

theorem env_file_overwrites_counterexample:
  "map_of [(''PORT'', ''8080'')] ''PORT'' = Some ''8080''
   \<and> load_env (map_of [(''PORT'', ''8080'')]) (Some ''PORT=3000'') ''PORT'' = Some ''3000''"
  by (simp add: load_env_def load_line_def line_entry_def trim_def is_space_def)

text \<open>
  C7, as amended.  Every assignment of the file is written to the environment,
  whether the variable was set before or not: after loading, a variable that
  some line assigns has the value of the last such line, and only a variable
  that no line assigns keeps the value it had.  Without a file the environment
  is unchanged.
\<close>

theorem env_file_last_assignment_wins:
  "load_env env (Some contents) k =
     (case map_of (rev (file_entries contents)) k of Some v \<Rightarrow> Some v | None \<Rightarrow> env k)
   \<and> load_env env None = env"
  by (simp add: load_env_def foldl_load_line file_entries_def map_add_def)

theorem env_file_last_assignment_wins_witness:
  "load_env (map_of [(''PORT'', ''8080''), (''HOME'', ''/root'')])
     (Some (''GROQ_API_KEY = gsk_1\<newline>PORT=3000\<newline>PORT=4000'')) ''PORT''
     = Some ''4000''
   \<and> load_env (map_of [(''PORT'', ''8080''), (''HOME'', ''/root'')])
     (Some (''GROQ_API_KEY = gsk_1\<newline>PORT=3000\<newline>PORT=4000'')) ''HOME''
     = Some ''/root''"
proof -
  have e: "file_entries (''GROQ_API_KEY = gsk_1\<newline>PORT=3000\<newline>PORT=4000'')
           = [(''GROQ_API_KEY'', ''gsk_1''), (''PORT'', ''3000''), (''PORT'', ''4000'')]"
    by (simp add: file_entries_def line_entry_def trim_def is_space_def)
  show ?thesis
    using env_file_last_assignment_wins
            [of "map_of [(''PORT'', ''8080''), (''HOME'', ''/root'')]"
                "''GROQ_API_KEY = gsk_1\<newline>PORT=3000\<newline>PORT=4000''"
                "''PORT''"]
          env_file_last_assignment_wins
            [of "map_of [(''PORT'', ''8080''), (''HOME'', ''/root'')]"
                "''GROQ_API_KEY = gsk_1\<newline>PORT=3000\<newline>PORT=4000''"
                "''HOME''"]
    by (simp add: e)
qed

section \<open>Properties of the static file server\<close>

lemma split_on_not_Nil: "split_on c s \<noteq> []"
  by (induction s) (auto split: list.splits)

lemma split_on_append: "split_on c (a @ c # b) = split_on c a @ split_on c b"
proof (induction a)
  case Nil
  then show ?case by simp
next
  case (Cons x a)
  obtain s ss where "split_on c a = s # ss"
    using split_on_not_Nil [of c a] by (cases "split_on c a") auto
  with Cons show ?case by simp
qed

lemma path_segments_append:
  "path_segments (a @ ''/'' @ b) = path_segments a @ path_segments b"
  by (simp add: path_segments_def split_on_append)

lemma startsWith_inside_directory:
  assumes "startsWith p (dir @ ''/'')"
  shows "inside_directory dir p"
proof -
  from assms obtain q where "p = dir @ ''/'' @ q" by (auto simp: startsWith_iff)
  then have "path_segments p = path_segments dir @ path_segments q"
    using path_segments_append [of dir q] by simp
  then show ?thesis by (simp add: inside_directory_def)
qed

text \<open>
  C5.  When the resolved path of a request does not lie inside the resolved
  static root, the server answers HTTP 403 and does nothing else: no file is
  read and no 200 is sent.  In every case, a file the server reads lies inside
  the root.
\<close>

theorem static_traversal_forbidden:
  "(\<not> inside_directory (path_resolve cwd [STATIC_ROOT])
        (path_resolve cwd
           [STATIC_ROOT, ''.'' @ (if reqPath = ''/'' then ''/math-solver.html'' else reqPath)]) \<longrightarrow>
      serveStatic STATIC_ROOT cwd fs reqPath = [SendJson 403 (error_payload ''Forbidden'')])
   \<and> list_all (inside_directory (path_resolve cwd [STATIC_ROOT]))
        (files_read (serveStatic STATIC_ROOT cwd fs reqPath))"
  using startsWith_inside_directory
  by (auto simp: serveStatic_def Let_def jsonError_def split: option.splits)

lemma resolve_passwd:
  "path_resolve ''/'' [''/srv/app'', ''./../../etc/passwd''] = ''/etc/passwd''"
  by (simp add: path_resolve_def)

lemma resolve_root: "path_resolve ''/'' [''/srv/app''] = ''/srv/app''"
  by (simp add: path_resolve_def)

theorem static_traversal_forbidden_witness:
  "\<not> inside_directory ''/srv/app'' ''/etc/passwd''
   \<and> serveStatic ''/srv/app'' ''/'' (\<lambda>p. Some ''secret'') ''/../../etc/passwd''
       = [SendJson 403 (error_payload ''Forbidden'')]
   \<and> files_read (serveStatic ''/srv/app'' ''/'' (\<lambda>p. Some ''secret'') ''/../../etc/passwd'') = []"
proof -
  have n: "\<not> inside_directory ''/srv/app'' ''/etc/passwd''"
    by (simp add: inside_directory_def path_segments_def)
  from static_traversal_forbidden
         [of "''/''" "''/srv/app''" "''/../../etc/passwd''" "\<lambda>p. Some ''secret''"]
       n resolve_passwd resolve_root
  have "serveStatic ''/srv/app'' ''/'' (\<lambda>p. Some ''secret'') ''/../../etc/passwd''
          = [SendJson 403 (error_payload ''Forbidden'')]"
    by simp
  with n show ?thesis by simp
qed

section \<open>Properties of the body reader\<close>

lemma response_statuses_append:
  "response_statuses (xs @ ys) = response_statuses xs @ response_statuses ys"
  by (induction xs rule: response_statuses.induct) auto

lemma run_events_append:
  "run_events B limit st (xs @ ys) =
     (case run_events B limit st xs of
        (st1, out1) \<Rightarrow>
          (case run_events B limit st1 ys of (st2, out2) \<Rightarrow> (st2, out1 @ out2)))"
  by (induction xs arbitrary: st) (auto split: prod.splits)

text \<open>Once the limit is passed and the flag is set, no listener does anything.\<close>

lemma on_event_after_overflow:
  assumes "done_flag st" "limit < bytes st"
  shows "snd (on_event B limit st ev) = []
         \<and> done_flag (fst (on_event B limit st ev))
         \<and> limit < bytes (fst (on_event B limit st ev))
         \<and> body (fst (on_event B limit st ev)) = body st"
  using assms by (cases ev) (auto simp: on_data_def on_end_def on_error_def Let_def)

lemma run_events_after_overflow:
  "done_flag st \<Longrightarrow> limit < bytes st \<Longrightarrow>
   snd (run_events B limit st evs) = [] \<and> body (fst (run_events B limit st evs)) = body st"
proof (induction evs arbitrary: st)
  case Nil
  then show ?case by simp
next
  case (Cons ev evs)
  obtain st1 out1 where ev: "on_event B limit st ev = (st1, out1)"
    by (cases "on_event B limit st ev")
  with on_event_after_overflow [OF Cons.prems, of B ev]
  have "out1 = []" "done_flag st1" "limit < bytes st1" "body st1 = body st" by auto
  with Cons.IH [of st1] ev show ?case by (auto split: prod.splits)
qed

text \<open>While the bytes stay within the limit the flag stays unset and no 413 is written.\<close>

lemma on_event_below_limit:
  assumes "\<not> done_flag st" "bytes st + chunk_bytes [ev] \<le> limit"
  shows "\<not> done_flag (fst (on_event B limit st ev))
         \<and> bytes (fst (on_event B limit st ev)) = bytes st + chunk_bytes [ev]
         \<and> 413 \<notin> set (response_statuses (snd (on_event B limit st ev)))
         \<and> (is_data ev \<longrightarrow> snd (on_event B limit st ev) = [])"
  using assms
  by (cases ev) (auto simp: on_data_def on_end_def on_error_def Let_def jsonError_def)

lemma chunk_bytes_Cons: "chunk_bytes (ev # evs) = chunk_bytes [ev] + chunk_bytes evs"
  by (cases ev) auto

lemma run_events_below_limit:
  "\<not> done_flag st \<Longrightarrow> bytes st + chunk_bytes evs \<le> limit \<Longrightarrow>
   \<not> done_flag (fst (run_events B limit st evs))
   \<and> bytes (fst (run_events B limit st evs)) = bytes st + chunk_bytes evs
   \<and> 413 \<notin> set (response_statuses (snd (run_events B limit st evs)))
   \<and> (list_all is_data evs \<longrightarrow> snd (run_events B limit st evs) = [])"
proof (induction evs arbitrary: st)
  case Nil
  then show ?case by simp
next
  case (Cons ev evs)
  obtain st1 out1 where ev: "on_event B limit st ev = (st1, out1)"
    by (cases "on_event B limit st ev")
  from Cons.prems have le: "bytes st + chunk_bytes [ev] \<le> limit"
    using chunk_bytes_Cons [of ev evs] by simp
  from on_event_below_limit [OF Cons.prems(1) le, of B] ev
  have st1: "\<not> done_flag st1" "bytes st1 = bytes st + chunk_bytes [ev]"
    "413 \<notin> set (response_statuses out1)" "is_data ev \<longrightarrow> out1 = []"
    by auto
  from st1(2) Cons.prems(2) have "bytes st1 + chunk_bytes evs \<le> limit"
    using chunk_bytes_Cons [of ev evs] by simp
  from Cons.IH [OF st1(1) this] ev st1 show ?case
    using chunk_bytes_Cons [of ev evs]
    by (auto simp: response_statuses_append split: prod.splits)
qed

text \<open>The chunk that takes the count past the limit.\<close>

lemma first_overflow:
  "n \<le> limit \<Longrightarrow> limit < n + chunk_bytes evs \<Longrightarrow>
   \<exists>pre chunk post. evs = pre @ Data chunk # post \<and> n + chunk_bytes pre \<le> limit
      \<and> limit < n + chunk_bytes pre + length chunk"
proof (induction evs arbitrary: n)
  case Nil
  then show ?case by simp
next
  case (Cons ev evs)
  show ?case
  proof (cases "limit < n + chunk_bytes [ev]")
    case True
    with Cons.prems(1) obtain chunk where "ev = Data chunk" by (cases ev) auto
    with True Cons.prems have "ev # evs = [] @ Data chunk # evs \<and> n + chunk_bytes [] \<le> limit
        \<and> limit < n + chunk_bytes [] + length chunk" by simp
    then show ?thesis by blast
  next
    case False
    then have le: "n + chunk_bytes [ev] \<le> limit" by simp
    from Cons.prems(2) have "limit < (n + chunk_bytes [ev]) + chunk_bytes evs"
      using chunk_bytes_Cons [of ev evs] by simp
    from Cons.IH [OF le this] obtain pre chunk post where
      p: "evs = pre @ Data chunk # post" "n + chunk_bytes [ev] + chunk_bytes pre \<le> limit"
         "limit < n + chunk_bytes [ev] + chunk_bytes pre + length chunk" by blast
    then have "ev # evs = (ev # pre) @ Data chunk # post
        \<and> n + chunk_bytes (ev # pre) \<le> limit
        \<and> limit < n + chunk_bytes (ev # pre) + length chunk"
      using chunk_bytes_Cons [of ev pre] by simp
    then show ?thesis by blast
  qed
qed

text \<open>
  C6.  Take any sequence of events of one request whose chunks together hold more
  bytes than the limit.  Then exactly one HTTP 413 is written over the whole
  sequence.  It is written at the chunk that takes the count past the limit,
  together with the destruction of the request, and nothing at all comes after
  it: no other error response and no call of the continuation.  The body
  accumulated stays what it was before that chunk.  Before it no 413 was
  written, and nothing was written when only chunks came before it, as is the
  case for a stream, whose \<^verbatim>\<open>end\<close> or \<^verbatim>\<open>error\<close> comes last.
\<close>

theorem readBody_too_large_once:
  assumes "limit < chunk_bytes evs"
  shows "count_list (response_statuses (snd (readBody B limit evs))) 413 = 1
     \<and> (\<exists>pre chunk post.
          evs = pre @ Data chunk # post
          \<and> chunk_bytes pre \<le> limit \<and> limit < chunk_bytes pre + length chunk
          \<and> snd (readBody B limit evs)
              = snd (readBody B limit pre)
                @ [SendJson 413 (error_payload
                     (''Request body too large (limit '' @ decimal limit @ '' bytes)'')),
                   DestroyRequest]
          \<and> 413 \<notin> set (response_statuses (snd (readBody B limit pre)))
          \<and> (list_all is_data pre \<longrightarrow> snd (readBody B limit pre) = [])
          \<and> body (fst (readBody B limit evs)) = body (fst (readBody B limit pre)))"
proof -
  from first_overflow [of 0 limit evs] assms obtain pre chunk post where
    evs: "evs = pre @ Data chunk # post" and le: "chunk_bytes pre \<le> limit"
    and gt: "limit < chunk_bytes pre + length chunk" by auto
  obtain st1 out1 where pre: "run_events B limit read_init pre = (st1, out1)"
    by (cases "run_events B limit read_init pre")
  have init: "\<not> done_flag read_init" "bytes read_init = 0" by (simp_all add: read_init_def)
  from run_events_below_limit [of read_init pre limit B] init le pre
  have st1: "\<not> done_flag st1" "bytes st1 = chunk_bytes pre" "413 \<notin> set (response_statuses out1)"
    "list_all is_data pre \<longrightarrow> out1 = []" by auto
  let ?st2 = "st1\<lparr>bytes := bytes st1 + length chunk, done_flag := True\<rparr>"
  let ?reply = "[SendJson 413 (error_payload
                   (''Request body too large (limit '' @ decimal limit @ '' bytes)'')),
                 DestroyRequest]"
  have data: "on_data B limit st1 chunk = (?st2, ?reply)"
    using st1 gt by (simp add: on_data_def Let_def jsonError_def)
  have after: "snd (run_events B limit ?st2 post) = []
               \<and> body (fst (run_events B limit ?st2 post)) = body ?st2"
    using st1 gt by (intro run_events_after_overflow) simp_all
  obtain st3 out3 where post: "run_events B limit ?st2 post = (st3, out3)"
    by (cases "run_events B limit ?st2 post")
  with after have st3: "out3 = []" "body st3 = body st1" by auto
  have whole: "run_events B limit read_init (pre @ Data chunk # post) = (st3, out1 @ ?reply)"
    by (simp add: run_events_append pre data post st3)
  have count: "count_list (response_statuses (out1 @ ?reply)) 413 = 1"
    using st1(3) by (simp add: response_statuses_append count_list_0_iff)
  have a: "snd (readBody B limit evs) = snd (readBody B limit pre) @ ?reply"
    unfolding evs readBody_def whole pre by simp
  have b: "body (fst (readBody B limit evs)) = body (fst (readBody B limit pre))"
    unfolding evs readBody_def whole pre using st3 by simp
  have c: "413 \<notin> set (response_statuses (snd (readBody B limit pre)))"
    unfolding readBody_def pre using st1(3) by simp
  have d: "list_all is_data pre \<longrightarrow> snd (readBody B limit pre) = []"
    unfolding readBody_def pre using st1(4) by simp
  have e: "count_list (response_statuses (snd (readBody B limit evs))) 413 = 1"
    unfolding evs readBody_def whole using count by simp
  from evs le gt a b c d e show ?thesis by blast
qed

theorem readBody_too_large_once_witness:
  "(3::nat) < chunk_bytes [Data ''ab'', Data ''cd'', Data ''e'', End, Error ''aborted'']
   \<and> count_list (response_statuses (snd (readBody sample_builtins 3
         [Data ''ab'', Data ''cd'', Data ''e'', End, Error ''aborted'']))) 413 = 1
   \<and> snd (readBody sample_builtins 3 [Data ''ab'', Data ''cd'', Data ''e'', End, Error ''aborted''])
       = [SendJson 413 (error_payload ''Request body too large (limit 3 bytes)''), DestroyRequest]
   \<and> body (fst (readBody sample_builtins 3
         [Data ''ab'', Data ''cd'', Data ''e'', End, Error ''aborted''])) = ''ab''"
proof -
  have h: "(3::nat) < chunk_bytes [Data ''ab'', Data ''cd'', Data ''e'', End, Error ''aborted'']"
    by simp
  have r: "readBody sample_builtins 3 [Data ''ab'', Data ''cd'', Data ''e'', End, Error ''aborted'']
           = (\<lparr>body = ''ab'', done_flag = True, bytes = 5\<rparr>,
              [SendJson 413 (error_payload ''Request body too large (limit 3 bytes)''),
               DestroyRequest])"
    by (simp add: readBody_def read_init_def on_data_def on_end_def on_error_def Let_def
        jsonError_def sample_builtins_def decimal.simps [of 3] digit_char_def)
  from readBody_too_large_once [OF h, of sample_builtins]
  have "count_list (response_statuses (snd (readBody sample_builtins 3
         [Data ''ab'', Data ''cd'', Data ''e'', End, Error ''aborted'']))) 413 = 1"
    by (rule conjunct1)
  with h r show ?thesis by simp
qed

section \<open>Properties of message reshaping\<close>

lemma img_data_well_formed:
  "well_formed_attachment a \<Longrightarrow> img_data B a = Inr (attachment_data a)"
  by (cases a)
     (auto simp: img_data_def or_else_def split: option.splits json.splits)

lemma img_mime_well_formed:
  "well_formed_attachment a \<Longrightarrow> img_mime B a = Inr (attachment_mime a)"
  by (cases a)
     (auto simp: img_mime_def split: option.splits json.splits)

lemma push_images_well_formed:
  "list_all well_formed_attachment imgs \<Longrightarrow>
   push_images B acc imgs = Inr (acc @ image_blocks imgs)"
proof (induction imgs arbitrary: acc)
  case Nil
  then show ?case by (simp add: image_blocks_def)
next
  case (Cons a imgs)
  then have wf: "well_formed_attachment a" and rest: "list_all well_formed_attachment imgs"
    by simp_all
  show ?case
    using Cons.IH [OF rest]
    by (simp add: img_data_well_formed [OF wf] img_mime_well_formed [OF wf] image_blocks_def)
qed

lemma image_blocks_not_Nil:
  "list_ex (\<lambda>a. attachment_data a \<noteq> []) imgs \<Longrightarrow> image_blocks imgs \<noteq> []"
  by (auto simp: image_blocks_def list_ex_iff filter_empty_conv)

lemma reshape_with_images:
  assumes "opt_get (Some m) ''content'' = Some (JStr c)"
    and "opt_get (Some m) ''images'' = Some (JArr imgs)" and "imgs \<noteq> []"
    and "list_all well_formed_attachment imgs"
  shows "reshape B m =
     Inr \<lparr>role = opt_get (Some m) ''role'',
          content = (if text_blocks c @ image_blocks imgs = [] then Plain (Some (JStr c))
                     else Blocks (text_blocks c @ image_blocks imgs))\<rparr>"
proof -
  obtain i rest where imgs: "imgs = i # rest" using assms(3) by (cases imgs) auto
  have push: "\<And>acc. push_images B acc (i # rest) = Inr (acc @ image_blocks (i # rest))"
    using push_images_well_formed [OF assms(4)] imgs by simp
  show ?thesis
    unfolding reshape_def assms(1) assms(2) imgs
    by (simp add: push text_blocks_def or_else_def del: push_images.simps)
qed

text \<open>
  C1.  Take a message whose \<^verbatim>\<open>content\<close> is the string \<open>c\<close> and whose \<^verbatim>\<open>images\<close> is a
  non-empty array \<open>imgs\<close> of attachments, each a string or an object with a
  string \<^verbatim>\<open>data\<close> and at most a string \<^verbatim>\<open>mime\<close>.  When some attachment has
  non-empty data, the reshaped content is a non-empty list: a text block holding
  \<open>c\<close> if and only if \<open>c\<close> is not empty, then one image block for each attachment
  with non-empty data, in the order of the attachments, with the URL
  \<^verbatim>\<open>data:<mime>;base64,<data>\<close>, the MIME type being \<^verbatim>\<open>image/png\<close> when the
  attachment gives none (a string attachment, an absent or an empty \<^verbatim>\<open>mime\<close>);
  attachments with empty data give no block.  When no attachment has data, the
  content is the text block alone if \<open>c\<close> is not empty, and else falls back to the
  original, empty, text.  A message that is not \<^verbatim>\<open>null\<close> and has no attachment
  (no \<^verbatim>\<open>images\<close>, or an empty array) passes through as \<^verbatim>\<open>{role, content}\<close>.
\<close>

theorem reshape_builds_content_blocks:
  "(opt_get (Some m) ''content'' = Some (JStr c)
      \<and> opt_get (Some m) ''images'' = Some (JArr imgs) \<and> imgs \<noteq> []
      \<and> list_all well_formed_attachment imgs \<longrightarrow>
      (list_ex (\<lambda>a. attachment_data a \<noteq> []) imgs \<longrightarrow>
         reshape B m = Inr \<lparr>role = opt_get (Some m) ''role'',
                             content = Blocks (text_blocks c @ image_blocks imgs)\<rparr>
         \<and> text_blocks c @ image_blocks imgs \<noteq> [])
      \<and> (\<not> list_ex (\<lambda>a. attachment_data a \<noteq> []) imgs \<and> c \<noteq> [] \<longrightarrow>
         reshape B m = Inr \<lparr>role = opt_get (Some m) ''role'', content = Blocks [TextBlock c]\<rparr>)
      \<and> (\<not> list_ex (\<lambda>a. attachment_data a \<noteq> []) imgs \<and> c = [] \<longrightarrow>
         reshape B m = Inr \<lparr>role = opt_get (Some m) ''role'', content = Plain (Some (JStr c))\<rparr>))
   \<and> (m \<noteq> JNull
        \<and> (opt_get (Some m) ''images'' = None \<or> opt_get (Some m) ''images'' = Some (JArr [])) \<longrightarrow>
        reshape B m = Inr \<lparr>role = opt_get (Some m) ''role'',
                            content = Plain (opt_get (Some m) ''content'')\<rparr>)
   \<and> text_blocks c = (if c = [] then [] else [TextBlock c])
   \<and> image_blocks imgs =
       map (\<lambda>a. ImageBlock (''data:'' @ attachment_mime a @ '';base64,'' @ attachment_data a))
         (filter (\<lambda>a. attachment_data a \<noteq> []) imgs)"
proof -
  have no_data: "\<not> list_ex (\<lambda>a. attachment_data a \<noteq> []) imgs \<Longrightarrow> image_blocks imgs = []"
    by (auto simp: image_blocks_def list_ex_iff filter_empty_conv)
  have pass: "m \<noteq> JNull \<Longrightarrow>
      opt_get (Some m) ''images'' = None \<or> opt_get (Some m) ''images'' = Some (JArr []) \<Longrightarrow>
      reshape B m = Inr \<lparr>role = opt_get (Some m) ''role'',
                          content = Plain (opt_get (Some m) ''content'')\<rparr>"
    by (cases m) (auto simp: reshape_def)
  show ?thesis
    using reshape_with_images [of m c imgs B] image_blocks_not_Nil [of imgs] no_data pass
    by (auto simp: text_blocks_def image_blocks_def)
qed


theorem reshape_builds_content_blocks_witness:
  "reshape sample_builtins
     (JObj [(''role'', JStr ''user''), (''content'', JStr ''Solve x''),
            (''images'', JArr [JStr ''AAAA'',
                               JObj [(''data'', JStr []), (''mime'', JStr ''image/gif'')],
                               JObj [(''data'', JStr ''BBBB''), (''mime'', JStr ''image/jpeg'')]])])
     = Inr \<lparr>role = Some (JStr ''user''),
            content = Blocks [TextBlock ''Solve x'',
                              ImageBlock ''data:image/png;base64,AAAA'',
                              ImageBlock ''data:image/jpeg;base64,BBBB'']\<rparr>
   \<and> reshape sample_builtins
       (JObj [(''role'', JStr ''user''), (''content'', JStr []),
              (''images'', JArr [JObj [(''data'', JStr [])]])])
     = Inr \<lparr>role = Some (JStr ''user''), content = Plain (Some (JStr []))\<rparr>
   \<and> reshape sample_builtins (JObj [(''role'', JStr ''user''), (''content'', JStr ''2+2'')])
     = Inr \<lparr>role = Some (JStr ''user''), content = Plain (Some (JStr ''2+2''))\<rparr>"
proof -
  let ?imgs = "[JStr ''AAAA'',
                JObj [(''data'', JStr []), (''mime'', JStr ''image/gif'')],
                JObj [(''data'', JStr ''BBBB''), (''mime'', JStr ''image/jpeg'')]]"
  let ?m1 = "JObj [(''role'', JStr ''user''), (''content'', JStr ''Solve x''),
                   (''images'', JArr ?imgs)]"
  let ?m2 = "JObj [(''role'', JStr ''user''), (''content'', JStr []),
                   (''images'', JArr [JObj [(''data'', JStr [])]])]"
  let ?m3 = "JObj [(''role'', JStr ''user''), (''content'', JStr ''2+2'')]"
  have "reshape sample_builtins ?m1
          = Inr \<lparr>role = opt_get (Some ?m1) ''role'',
                 content = Blocks (text_blocks ''Solve x'' @ image_blocks ?imgs)\<rparr>"
    using reshape_builds_content_blocks [of ?m1 "''Solve x''" ?imgs sample_builtins]
    by simp
  then have r1: "reshape sample_builtins ?m1
          = Inr \<lparr>role = Some (JStr ''user''),
                 content = Blocks [TextBlock ''Solve x'',
                                   ImageBlock ''data:image/png;base64,AAAA'',
                                   ImageBlock ''data:image/jpeg;base64,BBBB'']\<rparr>"
    by (simp add: text_blocks_def image_blocks_def)
  have r2: "reshape sample_builtins ?m2
          = Inr \<lparr>role = Some (JStr ''user''), content = Plain (Some (JStr []))\<rparr>"
    using reshape_builds_content_blocks
            [of ?m2 "[]" "[JObj [(''data'', JStr [])]]" sample_builtins]
    by simp
  have r3: "reshape sample_builtins ?m3
          = Inr \<lparr>role = Some (JStr ''user''), content = Plain (Some (JStr ''2+2''))\<rparr>"
    using reshape_builds_content_blocks [of ?m3 _ _ sample_builtins]
    by simp
  from r1 r2 r3 show ?thesis by simp
qed

end
